theory Spec2Isabelle
  imports Complex_Main
begin

section \<open>The audio backend as p5.sound drives it\<close>

text \<open>
  The sources (\<^verbatim>\<open>oscillator.js\<close> and the noise module) never compute samples: they
  create nodes of the audio context, set attributes, connect nodes and schedule
  time-stamped changes on parameters. The model therefore keeps the audio context as
  the clock, a supply of node identities, the value each parameter reports when read
  (\<^verbatim>\<open>param.value\<close>), and the list of calls issued so far, in call order.

  JavaScript numbers are modelled as \<^typ>\<open>real\<close>: rounding, NaN and the infinities are
  left out. An omitted numeric argument is \<^term>\<open>None\<close>.
\<close>

datatype param = Frequency nat | Gain nat

datatype endpoint =
    Node nat
  | Param param
  | MasterInput
  | SignalObj nat
  | NullRef

text \<open>
  The first argument of \<^verbatim>\<open>amp\<close> and \<^verbatim>\<open>freq\<close>. \<open>Num\<close> is a value whose
  \<^verbatim>\<open>typeof\<close> is \<^verbatim>\<open>'number'\<close>; \<open>Signal\<close> is an object with a \<^verbatim>\<open>connect\<close> method;
  \<open>Plain\<close> is any other truthy value (it has no \<^verbatim>\<open>connect\<close>); \<open>Undefined\<close> is an
  omitted argument, and stands for every falsy value that is not a number.
\<close>

datatype arg = Undefined | Num real | Signal nat | Plain

datatype call =
    CreateOscillator nat
  | CreateGain nat
  | CreateBufferSource nat
  | NewPanner nat endpoint endpoint
  | SoundArrayPush
  | SetValueAtTime param real real
  | LinearRampToValueAtTime param arg real
  | ExponentialRampToValueAtTime param real real
  | CancelScheduledValues param real
  | NodeStart nat real
  | NodeStop nat real
  | Connect endpoint endpoint
  | NodeDisconnect nat
  | PannerDisconnect nat "endpoint option"

datatype error = TypeError

record audiocontext =
  currentTime :: real
  next_node :: nat
  pvalue :: "param \<Rightarrow> real"
  calls :: "call list"

definition issue :: "call \<Rightarrow> audiocontext \<Rightarrow> audiocontext" where
  "issue c ctx = ctx\<lparr>calls := calls ctx @ [c]\<rparr>"

text \<open>A factory call of the context: the new node gets the next unused identity.\<close>

definition create :: "(nat \<Rightarrow> call) \<Rightarrow> audiocontext \<Rightarrow> nat \<times> audiocontext" where
  "create mk ctx =
     (next_node ctx, issue (mk (next_node ctx)) (ctx\<lparr>next_node := Suc (next_node ctx)\<rparr>))"

text \<open>Direct assignment \<^verbatim>\<open>param.value = v\<close>.\<close>

definition set_value :: "param \<Rightarrow> real \<Rightarrow> audiocontext \<Rightarrow> audiocontext" where
  "set_value p v ctx = ctx\<lparr>pvalue := (pvalue ctx)(p := v)\<rparr>"

text \<open>\<^verbatim>\<open>x || d\<close> on an optional number: \<^verbatim>\<open>undefined\<close> and \<^verbatim>\<open>0\<close> are falsy.\<close>

fun or_num :: "real option \<Rightarrow> real \<Rightarrow> real" where
  "or_num None d = d"
| "or_num (Some x) d = (if x = 0 then d else x)"

text \<open>\<^verbatim>\<open>x || d\<close> on an optional string: \<^verbatim>\<open>undefined\<close> and the empty string are falsy.\<close>

fun or_str :: "string option \<Rightarrow> string \<Rightarrow> string" where
  "or_str None d = d"
| "or_str (Some x) d = (if x = [] then d else x)"

section \<open>p5.Oscillator\<close>

text \<open>
  The fields both sound sources have. \<^verbatim>\<open>output\<close> is a gain node; the noise source
  clears the reference in \<^verbatim>\<open>dispose\<close>, the oscillator never does, hence the type
  parameter.
\<close>

record 'out sound_source =
  started :: bool
  "output" :: 'out
  panPosition :: real
  panner :: "nat option"

text \<open>The OscillatorNode held in \<^verbatim>\<open>this.oscillator\<close>: its identity and its \<^verbatim>\<open>type\<close>.\<close>

record osc_node =
  node_id :: nat
  node_type :: string

record oscillator_fields = "nat sound_source" +
  oscillator :: "osc_node option"
  f :: real
  "input" :: nat
  freqMods :: "nat list"
  connection :: endpoint
  mathOps :: "nat list"
  freqNode :: "param option"
  oscMods :: "nat list option"

text \<open>
  \<^verbatim>\<open>osc2\<close> is read by \<^verbatim>\<open>dispose\<close> only and never assigned in these sources (a
  pulse-style composite assigns it a second, plain oscillator): it is an optional
  oscillator without an \<^verbatim>\<open>osc2\<close> of its own.
\<close>

record p5_Oscillator = oscillator_fields +
  osc2 :: "oscillator_fields option"

text \<open>
  The constructor, on arguments of the documented types in the documented order
  (\<^verbatim>\<open>freq\<close> a number, \<^verbatim>\<open>type\<close> a string, each optional); on these the two argument
  swaps at the head of the source constructor leave both arguments as they are.
\<close>

definition Oscillator ::
  "real option \<Rightarrow> string option \<Rightarrow> audiocontext \<Rightarrow> audiocontext \<times> p5_Oscillator" where
  "Oscillator freq type ctx =
     (let (osc, c1) = create CreateOscillator ctx;
          fr = or_num freq 440;
          c2 = issue (SetValueAtTime (Frequency osc) fr (currentTime c1)) c1;
          ty = or_str type ''sine'';
          (inp, c3) = create CreateGain c2;
          (out, c4) = create CreateGain c3;
          c5 = set_value (Gain out) 0 c4;
          c6 = issue (SetValueAtTime (Gain out) 0 (currentTime c5)) c5;
          c7 = issue (Connect (Node osc) (Node out)) c6;
          (pan, c8) = create (\<lambda>n. NewPanner n (Node out) MasterInput) c7;
          c9 = issue SoundArrayPush c8
      in (c9,
          \<lparr>started = False, output = out, panPosition = 0, panner = Some pan,
           oscillator = Some \<lparr>node_id = osc, node_type = ty\<rparr>, f = fr, input = inp,
           freqMods = [], connection = MasterInput, mathOps = [out], freqNode = None,
           oscMods = None, osc2 = None\<rparr>))"

definition stop ::
  "real option \<Rightarrow> audiocontext \<times> 'a oscillator_fields_scheme
     \<Rightarrow> error + audiocontext \<times> 'a oscillator_fields_scheme" where
  "stop time w =
     (case w of (ctx, this) \<Rightarrow>
        if started this then
          (let t = or_num time 0;
               now = currentTime ctx
           in case oscillator this of
                None \<Rightarrow> Inl TypeError
              | Some osc \<Rightarrow>
                  Inr (issue (NodeStop (node_id osc) (t + now)) ctx, this\<lparr>started := False\<rparr>))
        else Inr (ctx, this))"

definition start ::
  "real option \<Rightarrow> real option \<Rightarrow> audiocontext \<times> 'a oscillator_fields_scheme
     \<Rightarrow> error + audiocontext \<times> 'a oscillator_fields_scheme" where
  "start time fo w =
     (case (if started (snd w) then stop (Some (currentTime (fst w))) w else Inr w) of
        Inl e \<Rightarrow> Inl e
      | Inr (ctx, this) \<Rightarrow>
          if \<not> started this then
            (let freq = or_num fo (f this)
             in case oscillator this of
                  None \<Rightarrow> Inl TypeError
                | Some old \<Rightarrow>
                    (let type = node_type old;
                         (osc, c1) = create CreateOscillator ctx;
                         c2 = issue (ExponentialRampToValueAtTime (Frequency osc) \<bar>freq\<bar>
                                       (currentTime c1)) c1;
                         c3 = issue (Connect (Node osc) (Node (output this))) c2;
                         t = or_num time 0;
                         c4 = issue (NodeStart osc (t + currentTime c3)) c3;
                         c5 = foldl (\<lambda>c m. issue (Connect (SignalObj m) (Param (Frequency osc))) c)
                                c4 (freqMods this)
                     in Inr (c5, this\<lparr>oscillator := Some \<lparr>node_id = osc, node_type = type\<rparr>,
                                       freqNode := Some (Frequency osc),
                                       started := True\<rparr>)))
          else Inr (ctx, this))"

text \<open>
  \<^verbatim>\<open>amp\<close> and \<^verbatim>\<open>freq\<close> return the parameter when called without a value and
  \<^verbatim>\<open>undefined\<close> (\<^term>\<open>None\<close>) otherwise.
\<close>

definition amp ::
  "arg \<Rightarrow> real option \<Rightarrow> real option \<Rightarrow> audiocontext \<times> 'a oscillator_fields_scheme
     \<Rightarrow> error + param option \<times> audiocontext \<times> 'a oscillator_fields_scheme" where
  "amp vol rampTime tFromNow w =
     (case w of (ctx, this) \<Rightarrow>
        (case vol of
           Num v \<Rightarrow>
             (let rt = or_num rampTime 0;
                  tf = or_num tFromNow 0;
                  now = currentTime ctx;
                  gain = Gain (output this);
                  currentVol = pvalue ctx gain;
                  c1 = issue (CancelScheduledValues gain now) ctx;
                  c2 = issue (LinearRampToValueAtTime gain (Num currentVol) (now + tf)) c1;
                  c3 = issue (LinearRampToValueAtTime gain (Num v) (now + tf + rt)) c2
              in Inr (None, c3, this))
         | Signal m \<Rightarrow>
             Inr (None, issue (Connect (SignalObj m) (Param (Gain (output this)))) ctx, this)
         | Plain \<Rightarrow> Inl TypeError
         | Undefined \<Rightarrow> Inr (Some (Gain (output this)), ctx, this)))"

definition freq ::
  "arg \<Rightarrow> real option \<Rightarrow> real option \<Rightarrow> audiocontext \<times> 'a oscillator_fields_scheme
     \<Rightarrow> error + param option \<times> audiocontext \<times> 'a oscillator_fields_scheme" where
  "freq val rampTime tFromNow w =
     (case w of (ctx, this) \<Rightarrow>
        (case val of
           Num v \<Rightarrow>
             (let this1 = this\<lparr>f := v\<rparr>;
                  now = currentTime ctx;
                  rt = or_num rampTime 0;
                  tf = or_num tFromNow 0
              in case oscillator this1 of
                   None \<Rightarrow> Inl TypeError
                 | Some osc \<Rightarrow>
                     (let frequency = Frequency (node_id osc);
                          currentFreq = pvalue ctx frequency;
                          c1 = issue (CancelScheduledValues frequency now) ctx;
                          c2 = issue (SetValueAtTime frequency currentFreq (now + tf)) c1;
                          c3 = (if v > 0
                                then issue (ExponentialRampToValueAtTime frequency v
                                              (tf + rt + now)) c2
                                else issue (LinearRampToValueAtTime frequency (Num v)
                                              (tf + rt + now)) c2)
                      in Inr (None, c3, this1)))
         | Signal m \<Rightarrow>
             (case oscillator this of
                None \<Rightarrow> Inl TypeError
              | Some osc \<Rightarrow>
                  Inr (None,
                       issue (Connect (SignalObj m) (Param (Frequency (node_id osc)))) ctx,
                       this\<lparr>freqMods := freqMods this @ [m]\<rparr>))
         | Plain \<Rightarrow> Inl TypeError
         | Undefined \<Rightarrow>
             (case oscillator this of
                None \<Rightarrow> Inl TypeError
              | Some osc \<Rightarrow> Inr (Some (Frequency (node_id osc)), ctx, this))))"

definition setType ::
  "string \<Rightarrow> audiocontext \<times> 'a oscillator_fields_scheme
     \<Rightarrow> error + audiocontext \<times> 'a oscillator_fields_scheme" where
  "setType type w =
     (case w of (ctx, this) \<Rightarrow>
        (case oscillator this of
           None \<Rightarrow> Inl TypeError
         | Some osc \<Rightarrow> Inr (ctx, this\<lparr>oscillator := Some (osc\<lparr>node_type := type\<rparr>)\<rparr>)))"

definition disconnect ::
  "endpoint option \<Rightarrow> audiocontext \<times> 'a oscillator_fields_scheme
     \<Rightarrow> error + audiocontext \<times> 'a oscillator_fields_scheme" where
  "disconnect unit w =
     (case w of (ctx, this) \<Rightarrow>
        (case panner this of
           None \<Rightarrow> Inl TypeError
         | Some pan \<Rightarrow> Inr (issue (PannerDisconnect pan unit) ctx, this\<lparr>oscMods := Some []\<rparr>)))"

text \<open>
  \<^verbatim>\<open>dispose\<close>: the block guarded by \<^verbatim>\<open>if (this.oscillator)\<close>, then the cascade to
  \<^verbatim>\<open>osc2\<close>, whose own \<^verbatim>\<open>dispose\<close> is the guarded block alone.
\<close>

definition dispose_fields ::
  "audiocontext \<times> 'a oscillator_fields_scheme
     \<Rightarrow> error + audiocontext \<times> 'a oscillator_fields_scheme" where
  "dispose_fields w =
     (case oscillator (snd w) of
        None \<Rightarrow> Inr w
      | Some _ \<Rightarrow>
          (case stop (Some (currentTime (fst w))) w of
             Inl e \<Rightarrow> Inl e
           | Inr w1 \<Rightarrow>
               (case disconnect None w1 of
                  Inl e \<Rightarrow> Inl e
                | Inr (ctx, this) \<Rightarrow>
                    (case oscillator this of
                       None \<Rightarrow> Inl TypeError
                     | Some osc \<Rightarrow>
                         Inr (issue (NodeDisconnect (node_id osc)) ctx,
                              this\<lparr>panner := None, oscillator := None\<rparr>)))))"

definition dispose ::
  "audiocontext \<times> p5_Oscillator \<Rightarrow> error + audiocontext \<times> p5_Oscillator" where
  "dispose w =
     (case dispose_fields w of
        Inl e \<Rightarrow> Inl e
      | Inr (ctx, this) \<Rightarrow>
          (case osc2 this of
             None \<Rightarrow> Inr (ctx, this)
           | Some o2 \<Rightarrow>
               (case dispose_fields (ctx, o2) of
                  Inl e \<Rightarrow> Inl e
                | Inr (ctx', o2') \<Rightarrow> Inr (ctx', this\<lparr>osc2 := Some o2'\<rparr>))))"

section \<open>p5.Noise\<close>

text \<open>
  The three noise buffers are filled once, when the module is loaded, and only ever
  referred to afterwards; a source holds a reference to one of them.
\<close>

datatype color_buffer = WhiteNoise | PinkNoise | BrownNoise

text \<open>The AudioBufferSourceNode held in \<^verbatim>\<open>this.noise\<close>, with its two attributes.\<close>

record buffer_source =
  source_id :: nat
  buffer_of :: "color_buffer option"
  loop :: bool

record p5_Noise = "nat option sound_source" +
  buffer :: "color_buffer option"
  noise :: "buffer_source option"

text \<open>The constructor declares a \<^verbatim>\<open>type\<close> parameter and never reads it.\<close>

definition Noise :: "string option \<Rightarrow> audiocontext \<Rightarrow> audiocontext \<times> p5_Noise" where
  "Noise type ctx =
     (let (out, c1) = create CreateGain ctx;
          c2 = set_value (Gain out) 0.5 c1;
          (pan, c3) = create (\<lambda>n. NewPanner n (Node out) MasterInput) c2;
          c4 = issue SoundArrayPush c3
      in (c4,
          \<lparr>started = False, output = Some out, panPosition = 0, panner = Some pan,
           buffer = Some WhiteNoise, noise = None\<rparr>))"

text \<open>
  \<^verbatim>\<open>stop\<close> and \<^verbatim>\<open>start\<close> of the noise source declare no parameter, while
  \<^verbatim>\<open>setType\<close> and \<^verbatim>\<open>dispose\<close> call them with one: the argument is accepted and
  never read.
\<close>

definition Noise_stop ::
  "real option \<Rightarrow> audiocontext \<times> p5_Noise \<Rightarrow> audiocontext \<times> p5_Noise" where
  "Noise_stop ignored w =
     (case w of (ctx, this) \<Rightarrow>
        (let now = currentTime ctx
         in case noise this of
              Some src \<Rightarrow> (issue (NodeStop (source_id src) now) ctx, this\<lparr>started := False\<rparr>)
            | None \<Rightarrow> (ctx, this)))"

definition node_ref :: "nat option \<Rightarrow> endpoint" where
  "node_ref r = (case r of None \<Rightarrow> NullRef | Some n \<Rightarrow> Node n)"

definition Noise_start ::
  "real option \<Rightarrow> audiocontext \<times> p5_Noise \<Rightarrow> audiocontext \<times> p5_Noise" where
  "Noise_start ignored w =
     (case (if started (snd w) then Noise_stop None w else w) of (ctx, this) \<Rightarrow>
        (let (src, c1) = create CreateBufferSource ctx;
             c2 = issue (Connect (Node src) (node_ref (output this))) c1;
             now = currentTime c2;
             c3 = issue (NodeStart src now) c2
         in (c3, this\<lparr>noise := Some \<lparr>source_id = src, buffer_of = buffer this, loop = True\<rparr>,
                      started := True\<rparr>)))"

definition Noise_setType ::
  "string \<Rightarrow> audiocontext \<times> p5_Noise \<Rightarrow> audiocontext \<times> p5_Noise" where
  "Noise_setType type w =
     (case w of (ctx, this) \<Rightarrow>
        (let this1 =
               (if type = ''white'' then this\<lparr>buffer := Some WhiteNoise\<rparr>
                else if type = ''pink'' then this\<lparr>buffer := Some PinkNoise\<rparr>
                else if type = ''brown'' then this\<lparr>buffer := Some BrownNoise\<rparr>
                else this\<lparr>buffer := Some WhiteNoise\<rparr>)
         in if started this1 then
              (let now = currentTime ctx
               in Noise_start (Some (now + 0.01)) (Noise_stop (Some now) (ctx, this1)))
            else (ctx, this1)))"

definition Noise_amp ::
  "arg \<Rightarrow> real option \<Rightarrow> real option \<Rightarrow> audiocontext \<times> p5_Noise
     \<Rightarrow> error + param option \<times> audiocontext \<times> p5_Noise" where
  "Noise_amp vol rampTime tFromNow w =
     (case w of (ctx, this) \<Rightarrow>
        (let rt = or_num rampTime 0;
             tf = or_num tFromNow 0;
             now = currentTime ctx
         in case output this of
              None \<Rightarrow> Inl TypeError
            | Some out \<Rightarrow>
                (let gain = Gain out;
                     currentVol = pvalue ctx gain;
                     c1 = issue (CancelScheduledValues gain now) ctx;
                     c2 = issue (LinearRampToValueAtTime gain (Num currentVol)
                                   (now + tf + 0.001)) c1;
                     c3 = issue (LinearRampToValueAtTime gain vol (now + tf + rt + 0.001)) c2
                 in Inr (None, c3, this))))"

definition Noise_dispose :: "audiocontext \<times> p5_Noise \<Rightarrow> audiocontext \<times> p5_Noise" where
  "Noise_dispose w =
     (case w of (ctx, this) \<Rightarrow>
        (let now = currentTime ctx;
             (c1, this1) =
               (case noise this of
                  Some src \<Rightarrow> Noise_stop (Some now) (issue (NodeDisconnect (source_id src)) ctx, this)
                | None \<Rightarrow> (ctx, this));
             c2 = (case output this1 of
                     Some out \<Rightarrow> issue (NodeDisconnect out) c1
                   | None \<Rightarrow> c1);
             c3 = (case panner this1 of
                     Some pan \<Rightarrow> issue (PannerDisconnect pan None) c2
                   | None \<Rightarrow> c2)
         in (c3, this1\<lparr>output := None, panner := None, buffer := None, noise := None\<rparr>)))"

section \<open>Runs of public operations on an oscillator\<close>

text \<open>
  A caller's program: public operations of one oscillator in sequence, with the clock
  advancing in between. A run ends at the first exception.
\<close>

datatype osc_op =
    Start "real option" "real option"
  | Stop "real option"
  | Amp arg "real option" "real option"
  | Freq arg "real option" "real option"
  | SetType string
  | Disconnect "endpoint option"
  | Dispose
  | Advance real

definition drop_result ::
  "error + 'r \<times> audiocontext \<times> 'o \<Rightarrow> error + audiocontext \<times> 'o" where
  "drop_result r = (case r of Inl e \<Rightarrow> Inl e | Inr (_, w) \<Rightarrow> Inr w)"

fun step :: "osc_op \<Rightarrow> audiocontext \<times> p5_Oscillator \<Rightarrow> error + audiocontext \<times> p5_Oscillator" where
  "step (Start time fo) w = start time fo w"
| "step (Stop time) w = stop time w"
| "step (Amp vol rampTime tFromNow) w = drop_result (amp vol rampTime tFromNow w)"
| "step (Freq val rampTime tFromNow) w = drop_result (freq val rampTime tFromNow w)"
| "step (SetType type) w = setType type w"
| "step (Disconnect unit) w = disconnect unit w"
| "step Dispose w = dispose w"
| "step (Advance dt) w = Inr ((fst w)\<lparr>currentTime := currentTime (fst w) + dt\<rparr>, snd w)"

fun run :: "osc_op list \<Rightarrow> audiocontext \<times> p5_Oscillator \<Rightarrow> error + audiocontext \<times> p5_Oscillator" where
  "run [] w = Inr w"
| "run (x # xs) w = (case step x w of Inl e \<Rightarrow> Inl e | Inr w' \<Rightarrow> run xs w')"

text \<open>An audio context whose clock reads \<open>now\<close>, before any call.\<close>

definition context_at :: "real \<Rightarrow> audiocontext" where
  "context_at now = \<lparr>currentTime = now, next_node = 0, pvalue = (\<lambda>_. 0), calls = []\<rparr>"

definition calls_of :: "error + audiocontext \<times> 'o \<Rightarrow> call list" where
  "calls_of r = (case r of Inl _ \<Rightarrow> [] | Inr (ctx, _) \<Rightarrow> calls ctx)"

definition returned :: "error + 'r \<times> 'w \<Rightarrow> error + 'r" where
  "returned r = (case r of Inl e \<Rightarrow> Inl e | Inr (x, _) \<Rightarrow> Inr x)"

text \<open>Stopping, then starting: the two calls a caller makes one after the other.\<close>

definition stop_then_start ::
  "real option \<Rightarrow> real option \<Rightarrow> audiocontext \<times> 'a oscillator_fields_scheme
     \<Rightarrow> error + audiocontext \<times> 'a oscillator_fields_scheme" where
  "stop_then_start time fo w =
     (case stop None w of Inl e \<Rightarrow> Inl e | Inr w' \<Rightarrow> start time fo w')"

section \<open>Vocabulary of the properties\<close>

text \<open>The delay an optional time argument denotes: an omitted one counts as 0.\<close>

fun offset :: "real option \<Rightarrow> real" where
  "offset None = 0"
| "offset (Some t) = t"

definition is_exponential :: "call \<Rightarrow> bool" where
  "is_exponential c =
     (case c of ExponentialRampToValueAtTime _ _ _ \<Rightarrow> True | _ \<Rightarrow> False)"

definition is_connect :: "call \<Rightarrow> bool" where
  "is_connect c = (case c of Connect _ _ \<Rightarrow> True | _ \<Rightarrow> False)"

definition is_stop_of :: "nat \<Rightarrow> call \<Rightarrow> bool" where
  "is_stop_of n c = (case c of NodeStop m _ \<Rightarrow> m = n | _ \<Rightarrow> False)"

text \<open>
  What the methods of an oscillator keep of the object the constructor returns: no
  second oscillator, a panner as long as there is a generator, and a generator as long
  as \<^verbatim>\<open>started\<close> is set.
\<close>

definition intact :: "p5_Oscillator \<Rightarrow> bool" where
  "intact this =
     (osc2 this = None \<and> (oscillator this = None \<or> panner this \<noteq> None) \<and>
      (started this \<longrightarrow> oscillator this \<noteq> None))"

text \<open>A composite: an oscillator holding a second, plain oscillator in \<^verbatim>\<open>osc2\<close>.\<close>

definition with_osc2 :: "p5_Oscillator \<Rightarrow> p5_Oscillator \<Rightarrow> p5_Oscillator" where
  "with_osc2 this other = this\<lparr>osc2 := Some (oscillator_fields.truncate other)\<rparr>"

section \<open>Basic facts about the backend and the operations\<close>

lemmas eval_defs =
  Oscillator_def start_def stop_def amp_def freq_def setType_def disconnect_def
  dispose_fields_def dispose_def drop_result_def returned_def stop_then_start_def
  Noise_def Noise_start_def Noise_stop_def Noise_setType_def Noise_amp_def Noise_dispose_def
  node_ref_def create_def issue_def set_value_def context_at_def calls_of_def Let_def
  is_exponential_def is_connect_def is_stop_of_def with_osc2_def oscillator_fields.truncate_def

lemma or_num_zero: "or_num t 0 = offset t"
  by (cases t) simp_all

lemma issue_simps:
  "calls (issue c ctx) = calls ctx @ [c]"
  "currentTime (issue c ctx) = currentTime ctx"
  "next_node (issue c ctx) = next_node ctx"
  "pvalue (issue c ctx) = pvalue ctx"
  by (simp_all add: issue_def)

lemma create_simps:
  "fst (create mk ctx) = next_node ctx"
  "calls (snd (create mk ctx)) = calls ctx @ [mk (next_node ctx)]"
  "currentTime (snd (create mk ctx)) = currentTime ctx"
  "next_node (snd (create mk ctx)) = Suc (next_node ctx)"
  "pvalue (snd (create mk ctx)) = pvalue ctx"
  by (simp_all add: create_def issue_def)

lemma foldl_issue:
  "calls (foldl (\<lambda>c m. issue (g m) c) ctx ms) = calls ctx @ map g ms"
  "currentTime (foldl (\<lambda>c m. issue (g m) c) ctx ms) = currentTime ctx"
  "next_node (foldl (\<lambda>c m. issue (g m) c) ctx ms) = next_node ctx"
  "pvalue (foldl (\<lambda>c m. issue (g m) c) ctx ms) = pvalue ctx"
  by (induction ms arbitrary: ctx) (simp_all add: issue_simps)

lemma stop_not_started: "\<not> started this \<Longrightarrow> stop time (ctx, this) = Inr (ctx, this)"
  by (simp add: stop_def)

lemma stop_started:
  "started this \<Longrightarrow> oscillator this = Some osc \<Longrightarrow>
   stop time (ctx, this) =
     Inr (issue (NodeStop (node_id osc) (currentTime ctx + offset time)) ctx,
          this\<lparr>started := False\<rparr>)"
  by (simp add: stop_def or_num_zero add.commute)

text \<open>What \<^const>\<open>start\<close> does on an oscillator that still has its generator reference.\<close>

lemma start_result:
  assumes "oscillator this = Some old"
  shows "\<exists>ctx'. start time fo (ctx, this) =
           Inr (ctx', this\<lparr>oscillator := Some \<lparr>node_id = next_node ctx, node_type = node_type old\<rparr>,
                          freqNode := Some (Frequency (next_node ctx)),
                          started := True\<rparr>) \<and>
         calls ctx' = calls ctx @
           (if started this then [NodeStop (node_id old) (currentTime ctx + currentTime ctx)] else []) @
           [CreateOscillator (next_node ctx),
            ExponentialRampToValueAtTime (Frequency (next_node ctx)) \<bar>or_num fo (f this)\<bar> (currentTime ctx),
            Connect (Node (next_node ctx)) (Node (output this)),
            NodeStart (next_node ctx) (currentTime ctx + offset time)] @
           map (\<lambda>m. Connect (SignalObj m) (Param (Frequency (next_node ctx)))) (freqMods this) \<and>
         currentTime ctx' = currentTime ctx \<and> next_node ctx' = Suc (next_node ctx) \<and>
         pvalue ctx' = pvalue ctx"
proof (cases "started this")
  case True
  then show ?thesis using assms
    by (simp add: start_def stop_started Let_def split_beta issue_simps create_simps foldl_issue
        or_num_zero add.commute)
next
  case False
  then show ?thesis using assms
    by (simp add: start_def Let_def split_beta issue_simps create_simps foldl_issue
        or_num_zero add.commute)
qed

lemma amp_Num:
  "\<exists>ctx'. amp (Num v) rampTime delay (ctx, this) = Inr (None, ctx', this) \<and>
     calls ctx' = calls ctx @
       [CancelScheduledValues (Gain (output this)) (currentTime ctx),
        LinearRampToValueAtTime (Gain (output this)) (Num (pvalue ctx (Gain (output this))))
          (currentTime ctx + offset delay),
        LinearRampToValueAtTime (Gain (output this)) (Num v)
          (currentTime ctx + offset delay + offset rampTime)]"
  by (simp add: amp_def Let_def issue_simps or_num_zero)

lemma Noise_amp_result:
  assumes "output this = Some out"
  shows "\<exists>ctx'. Noise_amp vol rampTime delay (ctx, this) = Inr (None, ctx', this) \<and>
     calls ctx' = calls ctx @
       [CancelScheduledValues (Gain out) (currentTime ctx),
        LinearRampToValueAtTime (Gain out) (Num (pvalue ctx (Gain out)))
          (currentTime ctx + offset delay + 1 / 1000),
        LinearRampToValueAtTime (Gain out) vol
          (currentTime ctx + offset delay + offset rampTime + 1 / 1000)]"
  using assms by (simp add: Noise_amp_def Let_def issue_simps or_num_zero)

lemma freq_Num:
  assumes "oscillator this = Some osc"
  shows "\<exists>ctx'. freq (Num v) rampTime delay (ctx, this) = Inr (None, ctx', this\<lparr>f := v\<rparr>) \<and>
     calls ctx' = calls ctx @
       [CancelScheduledValues (Frequency (node_id osc)) (currentTime ctx),
        SetValueAtTime (Frequency (node_id osc)) (pvalue ctx (Frequency (node_id osc)))
          (currentTime ctx + offset delay),
        (if 0 < v
         then ExponentialRampToValueAtTime (Frequency (node_id osc)) v
                (currentTime ctx + offset delay + offset rampTime)
         else LinearRampToValueAtTime (Frequency (node_id osc)) (Num v)
                (currentTime ctx + offset delay + offset rampTime))]"
  using assms by (simp add: freq_def Let_def issue_simps or_num_zero add.commute add.left_commute)

lemma dispose_fields_cleared:
  "dispose_fields w = Inr w' \<Longrightarrow> oscillator (snd w') = None"
  by (auto simp: dispose_fields_def stop_def disconnect_def Let_def
      split: option.splits sum.splits if_splits prod.splits)

lemma dispose_fields_again:
  "oscillator (snd w) = None \<Longrightarrow> dispose_fields w = Inr w"
  by (simp add: dispose_fields_def)

lemma dispose_twice:
  assumes "dispose w = Inr w'"
  shows "dispose w' = Inr w'"
proof -
  from assms obtain ctx this where w1: "dispose_fields w = Inr (ctx, this)"
    by (auto simp: dispose_def split: sum.splits)
  have cleared: "oscillator this = None"
    using dispose_fields_cleared [OF w1] by simp
  show ?thesis
  proof (cases "osc2 this")
    case None
    with assms w1 have "w' = (ctx, this)" by (simp add: dispose_def)
    with None cleared show ?thesis
      by (simp add: dispose_def dispose_fields_again)
  next
    case (Some o2)
    with assms w1 obtain ctx' o2' where
      d2: "dispose_fields (ctx, o2) = Inr (ctx', o2')" and
      w': "w' = (ctx', this\<lparr>osc2 := Some o2'\<rparr>)"
      by (auto simp: dispose_def split: sum.splits)
    have "oscillator o2' = None"
      using dispose_fields_cleared [OF d2] by simp
    with w' cleared show ?thesis
      by (simp add: dispose_def dispose_fields_again)
  qed
qed

lemma Noise_dispose_twice: "Noise_dispose (Noise_dispose w) = Noise_dispose w"
  by (cases w) (simp add: Noise_dispose_def Noise_stop_def Let_def split_beta
      split: option.splits)

text \<open>Every public operation keeps \<^const>\<open>intact\<close>, and the constructor establishes it.\<close>

lemma intact_Oscillator: "intact (snd (Oscillator fr ty ctx))"
  by (simp add: Oscillator_def intact_def Let_def split_beta)

lemma intact_step:
  assumes "intact (snd w)" and "step x w = Inr w'"
  shows "intact (snd w')"
proof (cases x)
  case (Start t fo)
  with assms show ?thesis
    by (cases w) (auto simp: intact_def start_def stop_def Let_def split_beta
        split: if_splits option.splits sum.splits)
next
  case (Stop t)
  with assms show ?thesis
    by (cases w) (auto simp: intact_def stop_def Let_def split: if_splits option.splits)
next
  case (Amp v r d)
  with assms show ?thesis
    by (cases w) (auto simp: intact_def amp_def drop_result_def Let_def
        split: arg.splits sum.splits)
next
  case (Freq v r d)
  with assms show ?thesis
    by (cases w) (auto simp: intact_def freq_def drop_result_def Let_def
        split: arg.splits sum.splits option.splits if_splits)
next
  case (SetType ty)
  with assms show ?thesis
    by (cases w) (auto simp: intact_def setType_def split: option.splits)
next
  case (Disconnect u)
  with assms show ?thesis
    by (cases w) (auto simp: intact_def disconnect_def split: option.splits)
next
  case Dispose
  with assms show ?thesis
    by (cases w) (auto simp: intact_def dispose_def dispose_fields_def stop_def disconnect_def
        Let_def split: option.splits sum.splits if_splits)
next
  case (Advance dt)
  with assms show ?thesis by auto
qed

lemma intact_run:
  "intact (snd w) \<Longrightarrow> run xs w = Inr w' \<Longrightarrow> intact (snd w')"
proof (induction xs arbitrary: w)
  case Nil
  then show ?case by simp
next
  case (Cons x xs)
  then show ?case
    by (auto split: sum.splits dest: intact_step)
qed

lemma started_has_generator:
  "run xs (Oscillator fr ty ctx) = Inr w \<Longrightarrow> started (snd w) \<Longrightarrow> oscillator (snd w) \<noteq> None"
  using intact_run [OF intact_Oscillator, of xs fr ty ctx w] by (simp add: intact_def)

lemma intact_dispose: "intact (snd w) \<Longrightarrow> \<exists>w'. dispose w = Inr w'"
  by (cases w) (auto simp: intact_def dispose_def dispose_fields_def stop_def disconnect_def
      Let_def split: option.splits sum.splits if_splits)

section \<open>Restarting a started oscillator\<close>

text \<open>
  On a started oscillator, \<^const>\<open>start\<close> and \<^const>\<open>stop_then_start\<close> leave the
  same object and issue the same calls but for one time: \<^const>\<open>start\<close> hands the
  current clock reading to \<^const>\<open>stop\<close>, which adds the clock reading to its argument.
\<close>

lemma restart_differs_in_stop_time:
  assumes "started this" and "oscillator this = Some old"
  shows "\<exists>c1 c2 this' rest.
           start time fo (ctx, this) = Inr (c1, this') \<and>
           stop_then_start time fo (ctx, this) = Inr (c2, this') \<and>
           started this' \<and>
           calls c1 = calls ctx @ NodeStop (node_id old) (currentTime ctx + currentTime ctx) # rest \<and>
           calls c2 = calls ctx @ NodeStop (node_id old) (currentTime ctx) # rest"
proof -
  let ?stopped = "this\<lparr>started := False\<rparr>"
  let ?ctx1 = "issue (NodeStop (node_id old) (currentTime ctx)) ctx"
  have s: "stop None (ctx, this) = Inr (?ctx1, ?stopped)"
    using assms by (simp add: stop_started)
  have o: "oscillator ?stopped = Some old"
    using assms by simp
  from start_result [OF assms(2), of time fo ctx] obtain c1 where
    c1: "start time fo (ctx, this) =
           Inr (c1, this\<lparr>oscillator := Some \<lparr>node_id = next_node ctx, node_type = node_type old\<rparr>,
                         freqNode := Some (Frequency (next_node ctx)), started := True\<rparr>)"
    and k1: "calls c1 = calls ctx @
           (if started this then [NodeStop (node_id old) (currentTime ctx + currentTime ctx)] else []) @
           [CreateOscillator (next_node ctx),
            ExponentialRampToValueAtTime (Frequency (next_node ctx)) \<bar>or_num fo (f this)\<bar> (currentTime ctx),
            Connect (Node (next_node ctx)) (Node (output this)),
            NodeStart (next_node ctx) (currentTime ctx + offset time)] @
           map (\<lambda>m. Connect (SignalObj m) (Param (Frequency (next_node ctx)))) (freqMods this)"
    by blast
  from start_result [OF o, of time fo ?ctx1] obtain c2 where
    c2: "start time fo (?ctx1, ?stopped) =
           Inr (c2, ?stopped\<lparr>oscillator := Some \<lparr>node_id = next_node ?ctx1, node_type = node_type old\<rparr>,
                         freqNode := Some (Frequency (next_node ?ctx1)), started := True\<rparr>)"
    and k2: "calls c2 = calls ?ctx1 @
           (if started ?stopped then [NodeStop (node_id old) (currentTime ?ctx1 + currentTime ?ctx1)] else []) @
           [CreateOscillator (next_node ?ctx1),
            ExponentialRampToValueAtTime (Frequency (next_node ?ctx1)) \<bar>or_num fo (f ?stopped)\<bar> (currentTime ?ctx1),
            Connect (Node (next_node ?ctx1)) (Node (output ?stopped)),
            NodeStart (next_node ?ctx1) (currentTime ?ctx1 + offset time)] @
           map (\<lambda>m. Connect (SignalObj m) (Param (Frequency (next_node ?ctx1)))) (freqMods ?stopped)"
    by blast
  have "stop_then_start time fo (ctx, this) =
          Inr (c2, this\<lparr>oscillator := Some \<lparr>node_id = next_node ctx, node_type = node_type old\<rparr>,
                         freqNode := Some (Frequency (next_node ctx)), started := True\<rparr>)"
    using s c2 by (simp add: stop_then_start_def issue_simps)
  moreover have "calls c1 = calls ctx @ NodeStop (node_id old) (currentTime ctx + currentTime ctx) #
           ([CreateOscillator (next_node ctx),
            ExponentialRampToValueAtTime (Frequency (next_node ctx)) \<bar>or_num fo (f this)\<bar> (currentTime ctx),
            Connect (Node (next_node ctx)) (Node (output this)),
            NodeStart (next_node ctx) (currentTime ctx + offset time)] @
           map (\<lambda>m. Connect (SignalObj m) (Param (Frequency (next_node ctx)))) (freqMods this))"
    using k1 assms(1) by simp
  moreover have "calls c2 = calls ctx @ NodeStop (node_id old) (currentTime ctx) #
           ([CreateOscillator (next_node ctx),
            ExponentialRampToValueAtTime (Frequency (next_node ctx)) \<bar>or_num fo (f this)\<bar> (currentTime ctx),
            Connect (Node (next_node ctx)) (Node (output this)),
            NodeStart (next_node ctx) (currentTime ctx + offset time)] @
           map (\<lambda>m. Connect (SignalObj m) (Param (Frequency (next_node ctx)))) (freqMods this))"
    using k2 by (simp add: issue_simps)
  ultimately show ?thesis
    using c1 by auto
qed

text \<open>
  Claim C1. Calling \<open>start()\<close> on a started oscillator should be equivalent to
  \<open>stop()\<close> followed by \<open>start()\<close>, leaving exactly one live generator unit with the
  recorded frequency modulators reconnected to it. At clock reading 5, with one
  modulator recorded, both programs create unit 5, start it at 5 and reconnect the
  modulator to it, but the restart schedules the stop of the previous unit 4 at 10,
  where \<open>stop()\<close> schedules it at 5: between 5 and 10 the previous unit and the new
  one are both running.
\<close>

theorem restart_stops_previous_unit_late:
  "calls_of (run [Freq (Signal 7) None None, Start None None, Start None None]
               (Oscillator None None (context_at 5))) =
   calls_of (run [Freq (Signal 7) None None, Start None None]
               (Oscillator None None (context_at 5))) @
     [NodeStop 4 10, CreateOscillator 5,
      ExponentialRampToValueAtTime (Frequency 5) 440 5,
      Connect (Node 5) (Node 2), NodeStart 5 5,
      Connect (SignalObj 7) (Param (Frequency 5))] \<and>
   calls_of (run [Freq (Signal 7) None None, Start None None, Stop None, Start None None]
               (Oscillator None None (context_at 5))) =
   calls_of (run [Freq (Signal 7) None None, Start None None]
               (Oscillator None None (context_at 5))) @
     [NodeStop 4 5, CreateOscillator 5,
      ExponentialRampToValueAtTime (Frequency 5) 440 5,
      Connect (Node 5) (Node 2), NodeStart 5 5,
      Connect (SignalObj 7) (Param (Frequency 5))]"
  by (simp add: eval_defs)

section \<open>Stopping\<close>

text \<open>
  Claim C2, as the code has it. \<open>stop(timeOffset)\<close> changes nothing when the
  oscillator is not started. When it is started, exactly one call is issued, the stop
  of the generator at the clock reading plus \<open>timeOffset\<close> (an omitted \<open>timeOffset\<close>
  counting as 0), and \<open>started\<close> is false in the returned object. The offset is not
  clamped: it coincides with \<open>now + max(0, timeOffset)\<close> when \<open>timeOffset\<close> is not
  negative.
\<close>

theorem stop_schedules_at_offset:
  "(\<not> started this \<longrightarrow> stop time (ctx, this) = Inr (ctx, this)) \<and>
   (started this \<longrightarrow> oscillator this = Some osc \<longrightarrow>
      (\<exists>ctx'. stop time (ctx, this) = Inr (ctx', this\<lparr>started := False\<rparr>) \<and>
         calls ctx' = calls ctx @ [NodeStop (node_id osc) (currentTime ctx + offset time)] \<and>
         \<not> started (this\<lparr>started := False\<rparr>) \<and>
         (0 \<le> offset time \<longrightarrow>
            currentTime ctx + offset time = currentTime ctx + max 0 (offset time))))"
  by (simp add: stop_not_started stop_started issue_simps)

theorem stop_schedules_at_offset_witness:
  "stop (Some 2) (Oscillator None None (context_at 5)) = Inr (Oscillator None None (context_at 5)) \<and>
   calls_of (run [Start None None, Stop (Some 2)] (Oscillator None None (context_at 5))) =
   calls_of (run [Start None None] (Oscillator None None (context_at 5))) @ [NodeStop 4 7] \<and>
   calls_of (run [Start None None, Stop None] (Oscillator None None (context_at 5))) =
   calls_of (run [Start None None] (Oscillator None None (context_at 5))) @ [NodeStop 4 5]"
  using stop_schedules_at_offset [of "snd (Oscillator None None (context_at 5))" "Some 2"
          "fst (Oscillator None None (context_at 5))" "\<lparr>node_id = 0, node_type = ''sine''\<rparr>"]
        stop_schedules_at_offset
          [of "snd (projr (run [Start None None] (Oscillator None None (context_at 5))))" "Some 2"
              "fst (projr (run [Start None None] (Oscillator None None (context_at 5))))"
              "\<lparr>node_id = 4, node_type = ''sine''\<rparr>"]
  by (simp add: eval_defs)

text \<open>
  With a negative offset the claimed time \<open>now + max(0, timeOffset)\<close> is not the
  scheduled one: at clock reading 5, \<open>stop(-1)\<close> schedules the stop at 4, not at 5.
\<close>

theorem stop_negative_offset_counterexample:
  "calls_of (run [Start None None, Stop (Some (- 1))] (Oscillator None None (context_at 5))) =
   calls_of (run [Start None None] (Oscillator None None (context_at 5))) @ [NodeStop 4 4] \<and>
   calls_of (run [Start None None, Stop (Some (- 1))] (Oscillator None None (context_at 5))) \<noteq>
   calls_of (run [Start None None] (Oscillator None None (context_at 5))) @
     [NodeStop 4 (5 + max 0 (- 1))]"
  by (simp add: eval_defs)

section \<open>Scheduling amplitude and frequency\<close>

text \<open>
  Claim C3, as the code has it. With a numeric target \<open>v\<close>, \<open>amp(v, rampTime, delay)\<close>
  issues three calls on the gain of \<open>output\<close>: it cancels what is scheduled from the
  clock reading on, ramps linearly to the value the gain reports at the call (the hold
  point), and ramps linearly to \<open>v\<close>; omitted times count as 0. The oscillator puts
  the hold point at \<open>now + delay\<close> and the end of the ramp at
  \<open>now + delay + rampTime\<close>. The noise source, while it has its \<open>output\<close>, puts
  both one millisecond later.
\<close>

theorem amp_schedules_hold_then_linear_ramp:
  "(\<exists>ctx'. amp (Num v) rampTime delay (ctx, this) = Inr (None, ctx', this) \<and>
      calls ctx' = calls ctx @
        [CancelScheduledValues (Gain (output this)) (currentTime ctx),
         LinearRampToValueAtTime (Gain (output this)) (Num (pvalue ctx (Gain (output this))))
           (currentTime ctx + offset delay),
         LinearRampToValueAtTime (Gain (output this)) (Num v)
           (currentTime ctx + offset delay + offset rampTime)]) \<and>
   (output that = Some out \<longrightarrow>
      (\<exists>ctx'. Noise_amp (Num v) rampTime delay (ctx, that) = Inr (None, ctx', that) \<and>
         calls ctx' = calls ctx @
           [CancelScheduledValues (Gain out) (currentTime ctx),
            LinearRampToValueAtTime (Gain out) (Num (pvalue ctx (Gain out)))
              (currentTime ctx + offset delay + 1 / 1000),
            LinearRampToValueAtTime (Gain out) (Num v)
              (currentTime ctx + offset delay + offset rampTime + 1 / 1000)]))"
  using amp_Num [of v rampTime delay ctx this]
    Noise_amp_result [of that out "Num v" rampTime delay ctx]
  by blast

text \<open>The example of the claim, \<open>amp(0.8, 2, 1)\<close>, at clock reading 10.\<close>

theorem amp_schedules_hold_then_linear_ramp_witness:
  "calls_of (drop_result (amp (Num 0.8) (Some 2) (Some 1) (Oscillator None None (context_at 10)))) =
   calls (fst (Oscillator None None (context_at 10))) @
     [CancelScheduledValues (Gain 2) 10,
      LinearRampToValueAtTime (Gain 2) (Num 0) 11,
      LinearRampToValueAtTime (Gain 2) (Num 0.8) 13] \<and>
   calls_of (drop_result (Noise_amp (Num 0.8) (Some 2) (Some 1) (Noise None (context_at 10)))) =
   calls (fst (Noise None (context_at 10))) @
     [CancelScheduledValues (Gain 0) 10,
      LinearRampToValueAtTime (Gain 0) (Num 0.5) 11.001,
      LinearRampToValueAtTime (Gain 0) (Num 0.8) 13.001]"
  using amp_schedules_hold_then_linear_ramp
          [of "0.8" "Some 2" "Some 1" "fst (Oscillator None None (context_at 10))"
              "snd (Oscillator None None (context_at 10))"
              "snd (Noise None (context_at 10))" 0]
        amp_schedules_hold_then_linear_ramp
          [of "0.8" "Some 2" "Some 1" "fst (Noise None (context_at 10))"
              "snd (Oscillator None None (context_at 10))"
              "snd (Noise None (context_at 10))" 0]
  by (simp add: eval_defs)

text \<open>
  On a noise source the gain does not reach the target at exactly
  \<open>now + delay + rampTime\<close>: for \<open>amp(0.8, 2, 1)\<close> at clock reading 10 the ramp ends
  at 13.001, and the hold point is at 11.001.
\<close>

theorem Noise_amp_exact_time_counterexample:
  "calls_of (drop_result (Noise_amp (Num 0.8) (Some 2) (Some 1) (Noise None (context_at 10)))) \<noteq>
   calls (fst (Noise None (context_at 10))) @
     [CancelScheduledValues (Gain 0) 10,
      LinearRampToValueAtTime (Gain 0) (Num 0.5) (10 + 1),
      LinearRampToValueAtTime (Gain 0) (Num 0.8) (10 + 1 + 2)] \<and>
   LinearRampToValueAtTime (Gain 0) (Num 0.8) (10 + 1 + 2)
     \<notin> set (calls_of (drop_result
                (Noise_amp (Num 0.8) (Some 2) (Some 1) (Noise None (context_at 10)))))"
  by (simp add: eval_defs)

text \<open>
  Claim C4. On an oscillator that has its generator, \<open>freq(val, rampTime, delay)\<close> with
  a number \<open>val\<close> stores \<open>val\<close> in \<open>f\<close>, cancels what is scheduled on the frequency
  from the clock reading on, sets the value the frequency reports at the call at
  \<open>now + delay\<close>, and ramps to \<open>val\<close> by \<open>now + delay + rampTime\<close>:
  exponentially when \<open>val > 0\<close>, linearly otherwise. \<open>amp\<close> with a number issues
  no exponential ramp, and its last call is the linear ramp to the target.
\<close>

theorem freq_ramp_kind_follows_sign:
  "(oscillator this = Some osc \<longrightarrow>
      (\<exists>ctx'. freq (Num val) rampTime delay (ctx, this) = Inr (None, ctx', this\<lparr>f := val\<rparr>) \<and>
         f (this\<lparr>f := val\<rparr>) = val \<and>
         calls ctx' = calls ctx @
           [CancelScheduledValues (Frequency (node_id osc)) (currentTime ctx),
            SetValueAtTime (Frequency (node_id osc)) (pvalue ctx (Frequency (node_id osc)))
              (currentTime ctx + offset delay),
            (if 0 < val
             then ExponentialRampToValueAtTime (Frequency (node_id osc)) val
                    (currentTime ctx + offset delay + offset rampTime)
             else LinearRampToValueAtTime (Frequency (node_id osc)) (Num val)
                    (currentTime ctx + offset delay + offset rampTime))])) \<and>
   (\<exists>ctx' new. amp (Num v) rampTime delay (ctx, this) = Inr (None, ctx', this) \<and>
      calls ctx' = calls ctx @ new \<and>
      \<not> list_ex is_exponential new \<and>
      last new = LinearRampToValueAtTime (Gain (output this)) (Num v)
                   (currentTime ctx + offset delay + offset rampTime))"
proof -
  from amp_Num [of v rampTime delay ctx this] obtain ctx' where
    a: "amp (Num v) rampTime delay (ctx, this) = Inr (None, ctx', this)" and
    k: "calls ctx' = calls ctx @
       [CancelScheduledValues (Gain (output this)) (currentTime ctx),
        LinearRampToValueAtTime (Gain (output this)) (Num (pvalue ctx (Gain (output this))))
          (currentTime ctx + offset delay),
        LinearRampToValueAtTime (Gain (output this)) (Num v)
          (currentTime ctx + offset delay + offset rampTime)]"
    by blast
  have "\<not> list_ex is_exponential
       [CancelScheduledValues (Gain (output this)) (currentTime ctx),
        LinearRampToValueAtTime (Gain (output this)) (Num (pvalue ctx (Gain (output this))))
          (currentTime ctx + offset delay),
        LinearRampToValueAtTime (Gain (output this)) (Num v)
          (currentTime ctx + offset delay + offset rampTime)]"
    by (simp add: is_exponential_def)
  with a k have amp_part:
    "\<exists>ctx' new. amp (Num v) rampTime delay (ctx, this) = Inr (None, ctx', this) \<and>
      calls ctx' = calls ctx @ new \<and>
      \<not> list_ex is_exponential new \<and>
      last new = LinearRampToValueAtTime (Gain (output this)) (Num v)
                   (currentTime ctx + offset delay + offset rampTime)"
    by (intro exI conjI) (assumption, assumption, assumption, simp)
  show ?thesis
  proof (intro conjI impI)
    assume "oscillator this = Some osc"
    from freq_Num [OF this, of val rampTime delay ctx]
    show "\<exists>ctx'. freq (Num val) rampTime delay (ctx, this) = Inr (None, ctx', this\<lparr>f := val\<rparr>) \<and>
         f (this\<lparr>f := val\<rparr>) = val \<and>
         calls ctx' = calls ctx @
           [CancelScheduledValues (Frequency (node_id osc)) (currentTime ctx),
            SetValueAtTime (Frequency (node_id osc)) (pvalue ctx (Frequency (node_id osc)))
              (currentTime ctx + offset delay),
            (if 0 < val
             then ExponentialRampToValueAtTime (Frequency (node_id osc)) val
                    (currentTime ctx + offset delay + offset rampTime)
             else LinearRampToValueAtTime (Frequency (node_id osc)) (Num val)
                    (currentTime ctx + offset delay + offset rampTime))]"
      by auto
  next
    show "\<exists>ctx' new. amp (Num v) rampTime delay (ctx, this) = Inr (None, ctx', this) \<and>
      calls ctx' = calls ctx @ new \<and>
      \<not> list_ex is_exponential new \<and>
      last new = LinearRampToValueAtTime (Gain (output this)) (Num v)
                   (currentTime ctx + offset delay + offset rampTime)"
      by (rule amp_part)
  qed
qed

theorem freq_ramp_kind_follows_sign_witness:
  "calls_of (run [Freq (Num 220) (Some 2) (Some 1)] (Oscillator None None (context_at 5))) =
   calls (fst (Oscillator None None (context_at 5))) @
     [CancelScheduledValues (Frequency 0) 5, SetValueAtTime (Frequency 0) 0 6,
      ExponentialRampToValueAtTime (Frequency 0) 220 8] \<and>
   calls_of (run [Freq (Num (- 220)) (Some 2) (Some 1)] (Oscillator None None (context_at 5))) =
   calls (fst (Oscillator None None (context_at 5))) @
     [CancelScheduledValues (Frequency 0) 5, SetValueAtTime (Frequency 0) 0 6,
      LinearRampToValueAtTime (Frequency 0) (Num (- 220)) 8] \<and>
   f (snd (projr (run [Freq (Num (- 220)) (Some 2) (Some 1)]
                    (Oscillator None None (context_at 5))))) = - 220"
  using freq_ramp_kind_follows_sign
          [of "snd (Oscillator None None (context_at 5))" "\<lparr>node_id = 0, node_type = ''sine''\<rparr>"
              220 "Some 2" "Some 1" "fst (Oscillator None None (context_at 5))" 1]
        freq_ramp_kind_follows_sign
          [of "snd (Oscillator None None (context_at 5))" "\<lparr>node_id = 0, node_type = ''sine''\<rparr>"
              "- 220" "Some 2" "Some 1" "fst (Oscillator None None (context_at 5))" 1]
  by (simp add: eval_defs)

section \<open>Exponential ramps and their targets\<close>

text \<open>The guard of \<^const>\<open>freq\<close>: an exponential ramp it issues has a positive target.\<close>

lemma freq_exponential_positive:
  assumes "oscillator this = Some osc"
    and "freq val rampTime delay (ctx, this) = Inr (r, ctx', this')"
    and "ExponentialRampToValueAtTime p x t \<in> set (calls ctx')"
    and "ExponentialRampToValueAtTime p x t \<notin> set (calls ctx)"
  shows "0 < x"
  using assms
  by (cases val) (auto simp: freq_def Let_def issue_simps split: if_splits)

text \<open>
  \<^const>\<open>start\<close> has no such guard: its exponential ramp goes to the absolute value
  of \<open>frequencyOverride || f\<close>, which is never negative, and is zero exactly when
  that frequency is zero.
\<close>

lemma start_exponential_target:
  assumes "oscillator this = Some old"
    and "start timeOffset frequencyOverride (ctx, this) = Inr (ctx', this')"
  shows "ExponentialRampToValueAtTime (Frequency (next_node ctx))
           \<bar>or_num frequencyOverride (f this)\<bar> (currentTime ctx) \<in> set (calls ctx')"
    and "0 \<le> \<bar>or_num frequencyOverride (f this)\<bar>"
    and "\<bar>or_num frequencyOverride (f this)\<bar> = 0 \<longleftrightarrow>
         f this = 0 \<and> (frequencyOverride = None \<or> frequencyOverride = Some 0)"
proof -
  from start_result [OF assms(1), of timeOffset frequencyOverride ctx] assms(2)
  show "ExponentialRampToValueAtTime (Frequency (next_node ctx))
           \<bar>or_num frequencyOverride (f this)\<bar> (currentTime ctx) \<in> set (calls ctx')"
    by auto
  show "0 \<le> \<bar>or_num frequencyOverride (f this)\<bar>"
    by simp
  show "\<bar>or_num frequencyOverride (f this)\<bar> = 0 \<longleftrightarrow>
         f this = 0 \<and> (frequencyOverride = None \<or> frequencyOverride = Some 0)"
    by (cases frequencyOverride) auto
qed

text \<open>
  Claim C5. No reachable sequence of public operations should issue an exponential
  ramp whose target is zero or negative. The sequence \<open>freq(0); start()\<close> after the
  constructor does: \<open>freq(0)\<close> stores 0 in \<open>f\<close> (and itself ramps linearly), and
  \<open>start()\<close> then ramps the new generator's frequency exponentially to
  \<open>Math.abs(0) = 0\<close>.
\<close>

theorem start_after_freq_zero_ramps_exponentially_to_zero:
  "run [Freq (Num 0) None None, Start None None] (Oscillator None None (context_at 5)) \<noteq> Inl TypeError \<and>
   calls_of (run [Freq (Num 0) None None, Start None None] (Oscillator None None (context_at 5))) =
   calls (fst (Oscillator None None (context_at 5))) @
     [CancelScheduledValues (Frequency 0) 5, SetValueAtTime (Frequency 0) 0 5,
      LinearRampToValueAtTime (Frequency 0) (Num 0) 5,
      CreateOscillator 4, ExponentialRampToValueAtTime (Frequency 4) 0 5,
      Connect (Node 4) (Node 2), NodeStart 4 5]"
  by (simp add: eval_defs)

section \<open>Starting\<close>

text \<open>
  Claim C6, as the code has it. On an oscillator that has its generator,
  \<open>start(timeOffset, frequencyOverride)\<close> first issues nothing but stops of the
  previous generator (none when the oscillator was not started), then creates a new
  generator, ramps its frequency exponentially to \<open>|frequencyOverride or f|\<close> at the
  clock reading, connects it to \<open>output\<close>, schedules its start at the clock reading
  plus \<open>timeOffset\<close> (an omitted \<open>timeOffset\<close> counting as 0) and connects every
  recorded frequency modulator to its frequency. The new generator has the type of the
  previous one, and \<open>started\<close> is true on return. The offset is not clamped: it
  coincides with \<open>now + max(0, timeOffset)\<close> when \<open>timeOffset\<close> is not negative.
\<close>

theorem start_creates_and_schedules_generator:
  "oscillator this = Some old \<longrightarrow>
     (\<exists>ctx' stops.
        start timeOffset frequencyOverride (ctx, this) =
          Inr (ctx', this\<lparr>oscillator := Some \<lparr>node_id = next_node ctx, node_type = node_type old\<rparr>,
                         freqNode := Some (Frequency (next_node ctx)),
                         started := True\<rparr>) \<and>
        calls ctx' = calls ctx @ stops @
          [CreateOscillator (next_node ctx),
           ExponentialRampToValueAtTime (Frequency (next_node ctx))
             \<bar>or_num frequencyOverride (f this)\<bar> (currentTime ctx),
           Connect (Node (next_node ctx)) (Node (output this)),
           NodeStart (next_node ctx) (currentTime ctx + offset timeOffset)] @
          map (\<lambda>m. Connect (SignalObj m) (Param (Frequency (next_node ctx)))) (freqMods this) \<and>
        list_all (is_stop_of (node_id old)) stops \<and>
        (\<not> started this \<longrightarrow> stops = []) \<and>
        (0 \<le> offset timeOffset \<longrightarrow>
           currentTime ctx + offset timeOffset = currentTime ctx + max 0 (offset timeOffset)))"
proof
  assume "oscillator this = Some old"
  from start_result [OF this, of timeOffset frequencyOverride ctx] obtain ctx' where
    r: "start timeOffset frequencyOverride (ctx, this) =
          Inr (ctx', this\<lparr>oscillator := Some \<lparr>node_id = next_node ctx, node_type = node_type old\<rparr>,
                         freqNode := Some (Frequency (next_node ctx)),
                         started := True\<rparr>)" and
    k: "calls ctx' = calls ctx @
           (if started this then [NodeStop (node_id old) (currentTime ctx + currentTime ctx)] else []) @
           [CreateOscillator (next_node ctx),
            ExponentialRampToValueAtTime (Frequency (next_node ctx))
              \<bar>or_num frequencyOverride (f this)\<bar> (currentTime ctx),
            Connect (Node (next_node ctx)) (Node (output this)),
            NodeStart (next_node ctx) (currentTime ctx + offset timeOffset)] @
           map (\<lambda>m. Connect (SignalObj m) (Param (Frequency (next_node ctx)))) (freqMods this)"
    by blast
  let ?stops = "if started this
                then [NodeStop (node_id old) (currentTime ctx + currentTime ctx)] else []"
  have "list_all (is_stop_of (node_id old)) ?stops"
    by (simp add: is_stop_of_def)
  moreover have "\<not> started this \<longrightarrow> ?stops = []"
    by simp
  moreover have "0 \<le> offset timeOffset \<longrightarrow>
      currentTime ctx + offset timeOffset = currentTime ctx + max 0 (offset timeOffset)"
    by simp
  ultimately show "\<exists>ctx' stops.
        start timeOffset frequencyOverride (ctx, this) =
          Inr (ctx', this\<lparr>oscillator := Some \<lparr>node_id = next_node ctx, node_type = node_type old\<rparr>,
                         freqNode := Some (Frequency (next_node ctx)),
                         started := True\<rparr>) \<and>
        calls ctx' = calls ctx @ stops @
          [CreateOscillator (next_node ctx),
           ExponentialRampToValueAtTime (Frequency (next_node ctx))
             \<bar>or_num frequencyOverride (f this)\<bar> (currentTime ctx),
           Connect (Node (next_node ctx)) (Node (output this)),
           NodeStart (next_node ctx) (currentTime ctx + offset timeOffset)] @
          map (\<lambda>m. Connect (SignalObj m) (Param (Frequency (next_node ctx)))) (freqMods this) \<and>
        list_all (is_stop_of (node_id old)) stops \<and>
        (\<not> started this \<longrightarrow> stops = []) \<and>
        (0 \<le> offset timeOffset \<longrightarrow>
           currentTime ctx + offset timeOffset = currentTime ctx + max 0 (offset timeOffset))"
    using r k by blast
qed

theorem start_creates_and_schedules_generator_witness:
  "calls_of (run [SetType ''square'', Freq (Signal 7) None None, Start (Some 3) (Some (- 220))]
               (Oscillator None None (context_at 5))) =
   calls (fst (Oscillator None None (context_at 5))) @
     [Connect (SignalObj 7) (Param (Frequency 0)),
      CreateOscillator 4, ExponentialRampToValueAtTime (Frequency 4) 220 5,
      Connect (Node 4) (Node 2), NodeStart 4 8,
      Connect (SignalObj 7) (Param (Frequency 4))] \<and>
   oscillator (snd (projr (run [SetType ''square'', Freq (Signal 7) None None,
                                Start (Some 3) (Some (- 220))]
                             (Oscillator None None (context_at 5))))) =
     Some \<lparr>node_id = 4, node_type = ''square''\<rparr> \<and>
   started (snd (projr (run [SetType ''square'', Freq (Signal 7) None None,
                             Start (Some 3) (Some (- 220))]
                          (Oscillator None None (context_at 5)))))"
  using start_creates_and_schedules_generator
          [of "snd (projr (run [SetType ''square'', Freq (Signal 7) None None]
                             (Oscillator None None (context_at 5))))"
              "\<lparr>node_id = 0, node_type = ''square''\<rparr>" "Some 3" "Some (- 220)"
              "fst (projr (run [SetType ''square'', Freq (Signal 7) None None]
                             (Oscillator None None (context_at 5))))"]
  by (simp add: eval_defs)

text \<open>
  With a negative offset the claimed time \<open>now + max(0, timeOffset)\<close> is not the
  scheduled one: at clock reading 5, \<open>start(-1)\<close> schedules the start of the new
  generator at 4, not at 5.
\<close>

theorem start_negative_offset_counterexample:
  "calls_of (run [Start (Some (- 1)) None] (Oscillator None None (context_at 5))) =
   calls (fst (Oscillator None None (context_at 5))) @
     [CreateOscillator 4, ExponentialRampToValueAtTime (Frequency 4) 440 5,
      Connect (Node 4) (Node 2), NodeStart 4 4] \<and>
   NodeStart 4 (5 + max 0 (- 1))
     \<notin> set (calls_of (run [Start (Some (- 1)) None] (Oscillator None None (context_at 5))))"
  by (simp add: eval_defs)

section \<open>Signals and parameter handles as arguments\<close>

text \<open>
  Claim C7, as the code has it. On an oscillator, \<open>amp\<close> with an object that has
  \<open>connect\<close> issues one call, the connection of that object to the gain of
  \<open>output\<close>, and \<open>freq\<close> with such an object (the generator being there) issues
  the connection to the generator's frequency and appends the object to
  \<open>_freqMods\<close>; called without a value, \<open>amp\<close> and \<open>freq\<close> issue nothing, leave
  the object as it is and return the parameter. The \<open>amp\<close> of a noise source does
  not look at what its first argument is: while the source has its \<open>output\<close> it
  issues the cancellation and the two linear ramps, the second with the argument as its
  target, connects nothing and returns nothing.
\<close>

theorem amp_freq_dispatch_on_argument:
  "amp (Signal m) rampTime delay (ctx, this) =
     Inr (None, issue (Connect (SignalObj m) (Param (Gain (output this)))) ctx, this) \<and>
   amp Undefined rampTime delay (ctx, this) = Inr (Some (Gain (output this)), ctx, this) \<and>
   (oscillator this = Some osc \<longrightarrow>
      freq (Signal m) rampTime delay (ctx, this) =
        Inr (None, issue (Connect (SignalObj m) (Param (Frequency (node_id osc)))) ctx,
             this\<lparr>freqMods := freqMods this @ [m]\<rparr>) \<and>
      freq Undefined rampTime delay (ctx, this) = Inr (Some (Frequency (node_id osc)), ctx, this)) \<and>
   (output that = Some out \<longrightarrow>
      (\<exists>ctx'. Noise_amp vol rampTime delay (ctx, that) = Inr (None, ctx', that) \<and>
         calls ctx' = calls ctx @
           [CancelScheduledValues (Gain out) (currentTime ctx),
            LinearRampToValueAtTime (Gain out) (Num (pvalue ctx (Gain out)))
              (currentTime ctx + offset delay + 1 / 1000),
            LinearRampToValueAtTime (Gain out) vol
              (currentTime ctx + offset delay + offset rampTime + 1 / 1000)]))"
proof (intro conjI impI)
  show "amp (Signal m) rampTime delay (ctx, this) =
     Inr (None, issue (Connect (SignalObj m) (Param (Gain (output this)))) ctx, this)"
    by (simp add: amp_def)
  show "amp Undefined rampTime delay (ctx, this) = Inr (Some (Gain (output this)), ctx, this)"
    by (simp add: amp_def)
next
  assume "oscillator this = Some osc"
  then show "freq (Signal m) rampTime delay (ctx, this) =
        Inr (None, issue (Connect (SignalObj m) (Param (Frequency (node_id osc)))) ctx,
             this\<lparr>freqMods := freqMods this @ [m]\<rparr>)"
    by (simp add: freq_def)
next
  assume "oscillator this = Some osc"
  then show "freq Undefined rampTime delay (ctx, this) =
        Inr (Some (Frequency (node_id osc)), ctx, this)"
    by (simp add: freq_def)
next
  assume "output that = Some out"
  then show "\<exists>ctx'. Noise_amp vol rampTime delay (ctx, that) = Inr (None, ctx', that) \<and>
         calls ctx' = calls ctx @
           [CancelScheduledValues (Gain out) (currentTime ctx),
            LinearRampToValueAtTime (Gain out) (Num (pvalue ctx (Gain out)))
              (currentTime ctx + offset delay + 1 / 1000),
            LinearRampToValueAtTime (Gain out) vol
              (currentTime ctx + offset delay + offset rampTime + 1 / 1000)]"
    by (rule Noise_amp_result)
qed

theorem amp_freq_dispatch_on_argument_witness:
  "calls_of (run [Amp (Signal 7) None None, Freq (Signal 8) None None]
               (Oscillator None None (context_at 5))) =
   calls (fst (Oscillator None None (context_at 5))) @
     [Connect (SignalObj 7) (Param (Gain 2)), Connect (SignalObj 8) (Param (Frequency 0))] \<and>
   freqMods (snd (projr (run [Amp (Signal 7) None None, Freq (Signal 8) None None]
                           (Oscillator None None (context_at 5))))) = [8] \<and>
   amp Undefined None None (Oscillator None None (context_at 5)) =
     Inr (Some (Gain 2), Oscillator None None (context_at 5)) \<and>
   freq Undefined None None (Oscillator None None (context_at 5)) =
     Inr (Some (Frequency 0), Oscillator None None (context_at 5)) \<and>
   returned (Noise_amp (Signal 7) None None (Noise None (context_at 5))) = Inr None"
  using amp_freq_dispatch_on_argument
          [of 7 None None "fst (Oscillator None None (context_at 5))"
              "snd (Oscillator None None (context_at 5))"
              "\<lparr>node_id = 0, node_type = ''sine''\<rparr>"
              "snd (Noise None (context_at 5))" 0 "Signal 7"]
        amp_freq_dispatch_on_argument
          [of 8 None None
              "fst (projr (run [Amp (Signal 7) None None] (Oscillator None None (context_at 5))))"
              "snd (projr (run [Amp (Signal 7) None None] (Oscillator None None (context_at 5))))"
              "\<lparr>node_id = 0, node_type = ''sine''\<rparr>"
              "snd (Noise None (context_at 5))" 0 "Signal 7"]
  by (simp add: eval_defs)

text \<open>
  On a noise source \<open>amp\<close> with a signal connects nothing and schedules a ramp whose
  target is the signal object, and \<open>amp\<close> without an argument schedules three calls
  and returns nothing where the claim has it return the gain parameter.
\<close>

theorem Noise_amp_dispatch_counterexample:
  "calls_of (drop_result (Noise_amp (Signal 7) None None (Noise None (context_at 5)))) =
   calls (fst (Noise None (context_at 5))) @
     [CancelScheduledValues (Gain 0) 5,
      LinearRampToValueAtTime (Gain 0) (Num 0.5) 5.001,
      LinearRampToValueAtTime (Gain 0) (Signal 7) 5.001] \<and>
   \<not> list_ex is_connect
       (drop (length (calls (fst (Noise None (context_at 5)))))
          (calls_of (drop_result (Noise_amp (Signal 7) None None (Noise None (context_at 5)))))) \<and>
   returned (Noise_amp Undefined None None (Noise None (context_at 5))) \<noteq> Inr (Some (Gain 0)) \<and>
   calls_of (drop_result (Noise_amp Undefined None None (Noise None (context_at 5)))) \<noteq>
   calls (fst (Noise None (context_at 5)))"
  by (simp add: eval_defs)

section \<open>Changing the colour of a noise source\<close>

lemma Noise_setType_buffer:
  "buffer (snd (Noise_setType type (ctx, this))) =
     Some (if type = ''pink'' then PinkNoise
           else if type = ''brown'' then BrownNoise else WhiteNoise)"
  by (simp add: Noise_setType_def Noise_start_def Noise_stop_def Let_def split_beta
      split: option.splits)

text \<open>
  On a started source that has its playback unit and its \<open>output\<close>,
  \<^const>\<open>Noise_setType\<close> stops the unit at the clock reading and starts the new one at
  the same clock reading: the time handed to \<^const>\<open>Noise_start\<close> is not read.
\<close>

lemma Noise_setType_restart:
  assumes "started this" and "noise this = Some src"
  shows "calls (fst (Noise_setType type (ctx, this))) = calls ctx @
           [NodeStop (source_id src) (currentTime ctx),
            CreateBufferSource (next_node ctx),
            Connect (Node (next_node ctx)) (node_ref (output this)),
            NodeStart (next_node ctx) (currentTime ctx)]"
  using assms
  by (simp add: Noise_setType_def Noise_start_def Noise_stop_def Let_def split_beta
      issue_simps create_simps)

text \<open>
  Claim C8. \<open>setType(color)\<close> on a started noise source should select the named
  buffer, stop the playback unit and restart playback 10 ms later. At clock reading 5,
  \<open>setType('pink')\<close> on a started source selects the pink buffer and stops unit 2
  at 5, but the new unit 3 is started at 5 as well, not at 5.01: \<open>setType\<close> passes
  \<open>now + .01\<close> to \<open>start\<close>, which declares no parameter and starts at the clock
  reading.
\<close>

theorem Noise_setType_restarts_without_delay:
  "calls (fst (Noise_setType ''pink'' (Noise_start None (Noise None (context_at 5))))) =
   calls (fst (Noise_start None (Noise None (context_at 5)))) @
     [NodeStop 2 5, CreateBufferSource 3, Connect (Node 3) (Node 0), NodeStart 3 5] \<and>
   NodeStart 3 (5 + 0.01)
     \<notin> set (calls (fst (Noise_setType ''pink'' (Noise_start None (Noise None (context_at 5)))))) \<and>
   noise (snd (Noise_setType ''pink'' (Noise_start None (Noise None (context_at 5))))) =
     Some \<lparr>source_id = 3, buffer_of = Some PinkNoise, loop = True\<rparr>"
  by (simp add: eval_defs)

section \<open>Disposing twice\<close>

text \<open>
  Claim C9. \<open>dispose()\<close> is idempotent. When a first \<open>dispose\<close> of an oscillator
  (with or without a second oscillator in \<open>osc2\<close>) has returned, a second one returns
  too, without an exception, and leaves the audio context and the object exactly as the
  first left them: no call is issued, so no node is released again. On an oscillator
  reached from the constructor by public operations the first \<open>dispose\<close> does
  return. The \<open>dispose\<close> of a noise source has every access guarded and cannot
  raise; done twice it has the effect of doing it once.
\<close>

theorem dispose_idempotent:
  "(dispose w = Inr w' \<longrightarrow> dispose w' = Inr w') \<and>
   (run ops (Oscillator fr ty ctx) = Inr u \<longrightarrow>
      (\<exists>u'. dispose u = Inr u' \<and> dispose u' = Inr u')) \<and>
   Noise_dispose (Noise_dispose v) = Noise_dispose v"
proof (intro conjI impI)
  assume "dispose w = Inr w'"
  then show "dispose w' = Inr w'" by (rule dispose_twice)
next
  assume "run ops (Oscillator fr ty ctx) = Inr u"
  with intact_Oscillator [of fr ty ctx] have "intact (snd u)"
    by (rule intact_run)
  then obtain u' where "dispose u = Inr u'"
    using intact_dispose by blast
  then show "\<exists>u'. dispose u = Inr u' \<and> dispose u' = Inr u'"
    using dispose_twice by blast
next
  show "Noise_dispose (Noise_dispose v) = Noise_dispose v"
    by (rule Noise_dispose_twice)
qed

text \<open>
  A started oscillator, a composite of two oscillators, and a started noise source,
  each disposed twice.
\<close>

theorem dispose_idempotent_witness:
  "dispose (projr (run [Start None None] (Oscillator None None (context_at 5)))) =
     Inr (projr (run [Start None None, Dispose] (Oscillator None None (context_at 5)))) \<and>
   dispose (projr (run [Start None None, Dispose] (Oscillator None None (context_at 5)))) =
     Inr (projr (run [Start None None, Dispose] (Oscillator None None (context_at 5)))) \<and>
   calls_of (run [Start None None, Dispose, Dispose] (Oscillator None None (context_at 5))) =
   calls_of (run [Start None None] (Oscillator None None (context_at 5))) @
     [NodeStop 4 10, PannerDisconnect 3 None, NodeDisconnect 4] \<and>
   calls_of (run [Dispose, Dispose]
      (fst (Oscillator None None (fst (Oscillator None None (context_at 5)))),
       with_osc2 (snd (Oscillator None None (context_at 5)))
         (snd (Oscillator None None (fst (Oscillator None None (context_at 5))))))) =
   calls (fst (Oscillator None None (fst (Oscillator None None (context_at 5))))) @
     [PannerDisconnect 3 None, NodeDisconnect 0, PannerDisconnect 7 None, NodeDisconnect 4] \<and>
   calls (fst (Noise_dispose (Noise_dispose (Noise_start None (Noise None (context_at 5)))))) =
   calls (fst (Noise_start None (Noise None (context_at 5)))) @
     [NodeDisconnect 2, NodeStop 2 5, NodeDisconnect 0, PannerDisconnect 1 None]"
  using dispose_idempotent
          [where w = "projr (run [Start None None] (Oscillator None None (context_at 5)))"
             and w' = "projr (run [Start None None, Dispose] (Oscillator None None (context_at 5)))"
             and ops = "[Start None None]" and fr = None and ty = None and ctx = "context_at 5"
             and u = "projr (run [Start None None] (Oscillator None None (context_at 5)))"
             and v = "Noise_start None (Noise None (context_at 5))"]
        dispose_idempotent
          [where w = "(fst (Oscillator None None (fst (Oscillator None None (context_at 5)))),
                       with_osc2 (snd (Oscillator None None (context_at 5)))
                         (snd (Oscillator None None (fst (Oscillator None None (context_at 5))))))"
             and w' = "projr (dispose
                      (fst (Oscillator None None (fst (Oscillator None None (context_at 5)))),
                       with_osc2 (snd (Oscillator None None (context_at 5)))
                         (snd (Oscillator None None (fst (Oscillator None None (context_at 5)))))))"
             and ops = "[]" and fr = None and ty = None and ctx = "context_at 5"
             and u = "Oscillator None None (context_at 5)"
             and v = "Noise None (context_at 5)"]
  by (simp add: eval_defs)

section \<open>The gain after construction\<close>

text \<open>
  Claim C10, as the code has it. Right after construction the gain of an oscillator's
  \<open>output\<close> reports 0, and the gain of a noise source's \<open>output\<close> reports 0.5.
\<close>

theorem initial_output_gain:
  "output (snd (Oscillator fr ty ctx)) = Suc (Suc (next_node ctx)) \<and>
   pvalue (fst (Oscillator fr ty ctx)) (Gain (Suc (Suc (next_node ctx)))) = 0 \<and>
   output (snd (Noise type ctx)) = Some (next_node ctx) \<and>
   pvalue (fst (Noise type ctx)) (Gain (next_node ctx)) = 1 / 2"
  by (simp add: Noise_def Oscillator_def Let_def split_beta create_simps issue_simps set_value_def)

text \<open>The gain of a new noise source does not start at 0.\<close>

theorem Noise_initial_gain_counterexample:
  "output (snd (Noise None (context_at 0))) = Some 0 \<and>
   pvalue (fst (Noise None (context_at 0))) (Gain 0) \<noteq> 0"
  by (simp add: eval_defs)

end
